theory Spec2Isabelle
  imports Complex_Main
begin

section \<open>Data model of lander.py\<close>

text \<open>
  \<^verbatim>\<open>Point = collections.namedtuple('Point', ['x', 'y'])\<close>: the terrain vertices, read as
  Python integers.
\<close>

record Point =
  px :: int
  py :: int

text \<open>
  \<^verbatim>\<open>class LandingSpot\<close>: the constructor stores both end points and derives
  \<open>left\<close>, \<open>right\<close> and \<open>height\<close> from them.
\<close>

record LandingSpot =
  start :: Point
  end_pt :: Point
  left :: int
  right :: int
  height :: int

definition LandingSpot_init :: "Point \<Rightarrow> Point \<Rightarrow> LandingSpot" where
  "LandingSpot_init s e =
     \<lparr>start = s, end_pt = e, left = px s, right = px e, height = py s\<rparr>"

text \<open>
  The exceptions the modelled code can raise: \<open>IndexError\<close> from \<^verbatim>\<open>self.list[0]\<close> on an
  empty surface, \<^verbatim>\<open>Exception('Failed to find safe spot')\<close>, and \<open>TypeError\<close> from calling
  \<^verbatim>\<open>None\<close>, from a constructor call with a missing argument, and from arithmetic or
  \<^verbatim>\<open>round\<close> on \<^verbatim>\<open>None\<close>.
\<close>

datatype error = IndexError | FailedToFindSafeSpot | TypeError

subsection \<open>Surface.find_safe_spot\<close>

text \<open>
  The \<^verbatim>\<open>for new_spot in self.list[1:]\<close> loop, with \<open>old_spot\<close> as the loop variable that
  is carried from one iteration to the next.
\<close>

fun find_safe_spot_loop :: "Point \<Rightarrow> Point list \<Rightarrow> error + LandingSpot" where
  "find_safe_spot_loop old_spot [] = Inl FailedToFindSafeSpot"
| "find_safe_spot_loop old_spot (new_spot # rest) =
     (if py new_spot = py old_spot \<and> px new_spot - px old_spot \<ge> 1000
      then Inr (LandingSpot_init old_spot new_spot)
      else find_safe_spot_loop new_spot rest)"

definition find_safe_spot :: "Point list \<Rightarrow> error + LandingSpot" where
  "find_safe_spot surface =
     (case surface of
        [] \<Rightarrow> Inl IndexError
      | old_spot # rest \<Rightarrow> find_safe_spot_loop old_spot rest)"

text \<open>The condition of the loop body, on the adjacent pair at positions \<open>i\<close>, \<open>i + 1\<close>.\<close>

definition flat_pair :: "Point list \<Rightarrow> nat \<Rightarrow> bool" where
  "flat_pair ps i \<longleftrightarrow>
     Suc i < length ps \<and> py (ps ! Suc i) = py (ps ! i) \<and> px (ps ! Suc i) - px (ps ! i) \<ge> 1000"

section \<open>The lander and its control states\<close>

text \<open>
  The four state classes, as class objects: they are what \<^verbatim>\<open>next_state\<close> holds and what
  \<^verbatim>\<open>self.next_state(...)\<close> calls. (The base class \<^verbatim>\<open>State\<close> is never instantiated.)
\<close>

datatype state_class = Hover | StopOverLandingSpot | Descend | Stop

text \<open>
  A state object: its class and its \<^verbatim>\<open>next_state\<close> attribute (\<open>None\<close> is Python's
  \<^verbatim>\<open>None\<close>). The other attributes are the same for every object of a class and are the
  constants below: \<^verbatim>\<open>rotate_limit\<close>, \<^verbatim>\<open>scale\<close>, \<^verbatim>\<open>cutoff\<close>. The back reference
  \<^verbatim>\<open>self.lander\<close> is the lander that owns the state.
\<close>

record State =
  cls :: state_class
  next_state :: "state_class option"

definition MAX_ROTATION :: int where "MAX_ROTATION = 90"
definition MIN_POWER :: int where "MIN_POWER = 0"
definition MAX_POWER :: int where "MAX_POWER = 4"
definition rotate_limit :: int where "rotate_limit = MAX_ROTATION"

definition MAX_SPEED :: int where "MAX_SPEED = 20"
definition MAX_ANGLE :: real where "MAX_ANGLE = 45"
definition HOVER_ANGLE :: real where "HOVER_ANGLE = 0"
definition StopOverLandingSpot_scale :: real where "StopOverLandingSpot_scale = 0.04"

definition SAFE_DESCENT_SPEED :: int where "SAFE_DESCENT_SPEED = -18"
definition LANDING_ALTITUDE :: int where "LANDING_ALTITUDE = 100"

definition Stop_scale :: real where "Stop_scale = 0.5"
definition Stop_cutoff :: int where "Stop_cutoff = 20"

subsection \<open>Constructors\<close>

text \<open>
  The \<^verbatim>\<open>__init__\<close> methods, by the \<^verbatim>\<open>next_state\<close> argument. \<^verbatim>\<open>StopOverLandingSpot.__init__\<close>
  passes its argument to the base class and then assigns \<^verbatim>\<open>self.next_state = Descend\<close>.
\<close>

definition Hover_init :: "state_class option \<Rightarrow> State" where
  "Hover_init ns = \<lparr>cls = Hover, next_state = ns\<rparr>"

definition StopOverLandingSpot_init :: "state_class option \<Rightarrow> State" where
  "StopOverLandingSpot_init ns = (\<lparr>cls = StopOverLandingSpot, next_state = ns\<rparr>)\<lparr>next_state := Some Descend\<rparr>"

definition Descend_init :: "state_class option \<Rightarrow> State" where
  "Descend_init ns = \<lparr>cls = Descend, next_state = ns\<rparr>"

definition Stop_init :: "state_class option \<Rightarrow> State" where
  "Stop_init ns = \<lparr>cls = Stop, next_state = ns\<rparr>"

text \<open>
  Calling a class object with the lander and the listed further positional arguments.
  \<^verbatim>\<open>Hover\<close> and \<^verbatim>\<open>Descend\<close> default \<^verbatim>\<open>next_state\<close> to \<^verbatim>\<open>None\<close>; \<^verbatim>\<open>StopOverLandingSpot\<close>
  and \<^verbatim>\<open>Stop\<close> require it. A wrong number of arguments raises \<open>TypeError\<close>.
\<close>

fun call_class :: "state_class \<Rightarrow> state_class option list \<Rightarrow> error + State" where
  "call_class Hover [] = Inr (Hover_init None)"
| "call_class Hover [ns] = Inr (Hover_init ns)"
| "call_class Descend [] = Inr (Descend_init None)"
| "call_class Descend [ns] = Inr (Descend_init ns)"
| "call_class StopOverLandingSpot [ns] = Inr (StopOverLandingSpot_init ns)"
| "call_class Stop [ns] = Inr (Stop_init ns)"
| "call_class c args = Inl TypeError"

text \<open>\<^verbatim>\<open>self.next_state(...)\<close>: calling \<^verbatim>\<open>None\<close> raises \<open>TypeError\<close>.\<close>

definition call_next_state :: "state_class option \<Rightarrow> state_class option list \<Rightarrow> error + State" where
  "call_next_state ns args = (case ns of None \<Rightarrow> Inl TypeError | Some c \<Rightarrow> call_class c args)"

subsection \<open>The lander\<close>

text \<open>
  \<^verbatim>\<open>class Lander\<close> after \<^verbatim>\<open>update_state\<close> has stored a telemetry record of seven
  integers. The write-only \<^verbatim>\<open>*_old\<close> copies and the surface, which is read only by the
  constructor, are left out. \<open>rotate\<close> and \<open>power\<close> carry a suffix because HOL has
  constants of these names.
\<close>

record Lander =
  landing_spot :: LandingSpot
  lander_x :: int
  lander_y :: int
  speed_h :: int
  speed_v :: int
  fuel :: int
  rotate_l :: int
  power_l :: int
  state :: State

definition update_state :: "Lander \<Rightarrow> int \<Rightarrow> int \<Rightarrow> int \<Rightarrow> int \<Rightarrow> int \<Rightarrow> int \<Rightarrow> int \<Rightarrow> Lander" where
  "update_state l x' y' speed_h' speed_v' fuel' rotate' power' =
     l\<lparr>lander_x := x', lander_y := y', speed_h := speed_h', speed_v := speed_v',
       fuel := fuel', rotate_l := rotate', power_l := power'\<rparr>"

definition is_over_landing_spot :: "Lander \<Rightarrow> bool" where
  "is_over_landing_spot l \<longleftrightarrow>
     left (landing_spot l) \<le> lander_x l \<and> lander_x l \<le> right (landing_spot l)"

definition altitude :: "Lander \<Rightarrow> int" where
  "altitude l = lander_y l - height (landing_spot l)"

definition is_left_of_landing_spot :: "Lander \<Rightarrow> bool" where
  "is_left_of_landing_spot l \<longleftrightarrow> lander_x l < left (landing_spot l)"

definition is_right_of_landing_spot :: "Lander \<Rightarrow> bool" where
  "is_right_of_landing_spot l \<longleftrightarrow> lander_x l > right (landing_spot l)"

text \<open>
  \<^verbatim>\<open>distance_to_landing_spot\<close> has an \<^verbatim>\<open>if\<close> and an \<^verbatim>\<open>elif\<close> and no \<^verbatim>\<open>else\<close>: when
  neither holds the property falls off its end and returns Python's \<^verbatim>\<open>None\<close>. The
  result is \<open>Inr\<close> of the returned value (\<open>None\<close> for \<^verbatim>\<open>None\<close>); no path raises.
\<close>

definition distance_to_landing_spot :: "Lander \<Rightarrow> error + int option" where
  "distance_to_landing_spot l =
     (if is_left_of_landing_spot l then Inr (Some (lander_x l - left (landing_spot l)))
      else if is_right_of_landing_spot l then Inr (Some (lander_x l - right (landing_spot l)))
      else Inr None)"

subsection \<open>Rounding\<close>

text \<open>
  Python 3's built-in \<^verbatim>\<open>round(x)\<close> with one argument: the nearest integer, an exact half
  going to the even neighbour. (The file is Python 3: it calls \<^verbatim>\<open>super()\<close> without
  arguments and \<^verbatim>\<open>print\<close> with \<^verbatim>\<open>file=\<close>.) On an \<^verbatim>\<open>int\<close> it is the identity.
\<close>

definition py_round :: "real \<Rightarrow> int" where
  "py_round d =
     (let f = \<lfloor>d\<rfloor>; r = d - of_int f in
      if r < 1 / 2 then f
      else if r > 1 / 2 then f + 1
      else if even f then f else f + 1)"

subsection \<open>Desired rotation\<close>

text \<open>
  Every transition in the file has the form
  \<^verbatim>\<open>self.lander.state = ...; return self.lander.state.update_rotation()\<close>: the new state
  is stored in the lander and the call ends with the new state's \<^verbatim>\<open>update_rotation\<close>.
  One method body therefore either returns a value (\<open>Return\<close>; \<open>None\<close> is Python's
  \<^verbatim>\<open>None\<close>, which \<^verbatim>\<open>move_towards_landing_spot\<close> returns when it falls off its end) or
  stores a state and hands over to it (\<open>Delegate\<close>, carrying the lander after the
  assignment).
\<close>

datatype outcome = Return "real option" | Delegate Lander

definition Hover_update_rotation :: "Lander \<Rightarrow> error + outcome" where
  "Hover_update_rotation l = Inr (Return (Some (of_int (speed_h l))))"

definition Descend_update_rotation :: "Lander \<Rightarrow> error + outcome" where
  "Descend_update_rotation l =
     (if altitude l > LANDING_ALTITUDE then Inr (Return (Some (of_int (speed_h l))))
      else Inr (Return (Some 0)))"

definition Stop_update_rotation :: "Lander \<Rightarrow> error + outcome" where
  "Stop_update_rotation l =
     (if - Stop_cutoff \<le> speed_h l \<and> speed_h l \<le> Stop_cutoff then
        (case call_next_state (next_state (state l)) [None] of
           Inl e \<Rightarrow> Inl e
         | Inr s \<Rightarrow> Inr (Delegate (l\<lparr>state := s\<rparr>)))
      else Inr (Return (Some (of_int (speed_h l) * Stop_scale))))"

definition is_too_fast :: "Lander \<Rightarrow> bool" where
  "is_too_fast l \<longleftrightarrow> \<not> (- MAX_SPEED \<le> speed_h l \<and> speed_h l \<le> MAX_SPEED)"

definition has_safe_speed :: "Lander \<Rightarrow> bool" where
  "has_safe_speed l \<longleftrightarrow> - MAX_SPEED \<le> speed_h l \<and> speed_h l \<le> MAX_SPEED"

text \<open>
  \<^verbatim>\<open>transition_to_stop\<close> builds \<^verbatim>\<open>Stop(lander, StopOverLandingSpot)\<close>; the name
  \<^verbatim>\<open>lander\<close> there is the module-level variable of the script, which is the lander itself.
\<close>

definition transition_to_stop :: "Lander \<Rightarrow> error + outcome" where
  "transition_to_stop l =
     (case call_class Stop [Some StopOverLandingSpot] of
        Inl e \<Rightarrow> Inl e
      | Inr s \<Rightarrow> Inr (Delegate (l\<lparr>state := s\<rparr>)))"

definition stop_and_transition_to_next_state :: "Lander \<Rightarrow> error + outcome" where
  "stop_and_transition_to_next_state l =
     (if has_safe_speed l then
        (case call_next_state (next_state (state l)) [] of
           Inl e \<Rightarrow> Inl e
         | Inr s \<Rightarrow> Inr (Delegate (l\<lparr>state := s\<rparr>)))
      else transition_to_stop l)"

text \<open>
  \<^verbatim>\<open>distance_to_landing_spot * self.scale\<close>: multiplying \<^verbatim>\<open>None\<close> raises \<open>TypeError\<close>.
  The product of the integer distance and the float constant is taken in the reals.
\<close>

definition scaled_distance :: "Lander \<Rightarrow> error + real option" where
  "scaled_distance l =
     (case distance_to_landing_spot l of
        Inl e \<Rightarrow> Inl e
      | Inr None \<Rightarrow> Inl TypeError
      | Inr (Some d) \<Rightarrow> Inr (Some (of_int d * StopOverLandingSpot_scale)))"

definition move_towards_landing_spot :: "Lander \<Rightarrow> error + real option" where
  "move_towards_landing_spot l =
     (if is_left_of_landing_spot l then
        (if speed_h l < MAX_SPEED then scaled_distance l
         else if speed_h l > MAX_SPEED then Inr (Some MAX_ANGLE)
         else Inr (Some HOVER_ANGLE))
      else if is_right_of_landing_spot l then
        (if speed_h l > - MAX_SPEED then scaled_distance l
         else if speed_h l < - MAX_SPEED then Inr (Some (- MAX_ANGLE))
         else Inr (Some HOVER_ANGLE))
      else Inr None)"

definition StopOverLandingSpot_update_rotation :: "Lander \<Rightarrow> error + outcome" where
  "StopOverLandingSpot_update_rotation l =
     (if is_too_fast l then transition_to_stop l
      else if is_over_landing_spot l then stop_and_transition_to_next_state l
      else (case move_towards_landing_spot l of
              Inl e \<Rightarrow> Inl e
            | Inr v \<Rightarrow> Inr (Return v)))"

text \<open>The method body that \<^verbatim>\<open>self.lander.state.update_rotation()\<close> selects, by class.\<close>

definition update_rotation_body :: "Lander \<Rightarrow> error + outcome" where
  "update_rotation_body l =
     (case cls (state l) of
        Hover \<Rightarrow> Hover_update_rotation l
      | StopOverLandingSpot \<Rightarrow> StopOverLandingSpot_update_rotation l
      | Descend \<Rightarrow> Descend_update_rotation l
      | Stop \<Rightarrow> Stop_update_rotation l)"

text \<open>
  The number of further hand-overs a call can still make: it bounds the chain of
  delegations and is the termination measure of \<open>update_rotation\<close>.
\<close>

definition hops :: "Lander \<Rightarrow> nat" where
  "hops l =
     (case cls (state l) of
        Hover \<Rightarrow> 0
      | Descend \<Rightarrow> 0
      | StopOverLandingSpot \<Rightarrow> 1
      | Stop \<Rightarrow>
          (if - Stop_cutoff \<le> speed_h l \<and> speed_h l \<le> Stop_cutoff then
             (case next_state (state l) of
                None \<Rightarrow> 0
              | Some StopOverLandingSpot \<Rightarrow> 2
              | Some c \<Rightarrow> 1)
           else 0))"

text \<open>
  \<^verbatim>\<open>state.update_rotation()\<close> as the caller sees it: the value finally returned and the
  lander with the state that is active afterwards.
\<close>

function update_rotation :: "Lander \<Rightarrow> error + (real option \<times> Lander)" where
  "update_rotation l =
     (case update_rotation_body l of
        Inl e \<Rightarrow> Inl e
      | Inr (Return v) \<Rightarrow> Inr (v, l)
      | Inr (Delegate l') \<Rightarrow> update_rotation l')"
  by pat_completeness auto
termination
proof (relation "measure hops")
  show "wf (measure hops)" by simp
next
  fix l :: Lander and o' l'
  assume "update_rotation_body l = Inr o'" and "o' = Delegate l'"
  then have "update_rotation_body l = Inr (Delegate l')" by simp
  then have "hops l' < hops l"
    by (cases "cls (state l)"; cases "next_state (state l)"; (cases "the (next_state (state l))")?)
       (auto simp: update_rotation_body_def hops_def Hover_update_rotation_def
          Descend_update_rotation_def Stop_update_rotation_def
          StopOverLandingSpot_update_rotation_def transition_to_stop_def
          stop_and_transition_to_next_state_def call_next_state_def is_too_fast_def
          has_safe_speed_def Hover_init_def Descend_init_def Stop_init_def
          StopOverLandingSpot_init_def MAX_SPEED_def Stop_cutoff_def
          split: if_splits sum.splits)
  then show "(l', l) \<in> measure hops" by simp
qed

declare update_rotation.simps [simp del]

subsection \<open>Desired power\<close>

definition Hover_update_power :: "Lander \<Rightarrow> real" where
  "Hover_update_power l = (if speed_v l > 0 then 3 else 4)"

definition StopOverLandingSpot_update_power :: "Lander \<Rightarrow> real" where
  "StopOverLandingSpot_update_power l =
     (if altitude l < 100 \<and> \<not> is_over_landing_spot l then 4
      else if speed_v l > -18 then 3
      else 4)"

definition is_not_safe_to_land :: "Lander \<Rightarrow> bool" where
  "is_not_safe_to_land l \<longleftrightarrow> altitude l < LANDING_ALTITUDE \<and> \<not> is_over_landing_spot l"

definition descent_is_too_fast :: "Lander \<Rightarrow> bool" where
  "descent_is_too_fast l \<longleftrightarrow> speed_v l < SAFE_DESCENT_SPEED"

definition Descend_update_power :: "Lander \<Rightarrow> real" where
  "Descend_update_power l =
     (if is_not_safe_to_land l then 4
      else if descent_is_too_fast l then 4
      else 3)"

text \<open>\<^verbatim>\<open>Stop\<close> does not override \<^verbatim>\<open>update_power\<close> and inherits it from \<^verbatim>\<open>Hover\<close>.\<close>

definition update_power :: "Lander \<Rightarrow> real" where
  "update_power l =
     (case cls (state l) of
        Hover \<Rightarrow> Hover_update_power l
      | StopOverLandingSpot \<Rightarrow> StopOverLandingSpot_update_power l
      | Descend \<Rightarrow> Descend_update_power l
      | Stop \<Rightarrow> Hover_update_power l)"

subsection \<open>Control outputs\<close>

text \<open>The limiting \<^verbatim>\<open>if\<close>/\<^verbatim>\<open>elif\<close>/\<^verbatim>\<open>else\<close> chains of the two control properties.\<close>

definition limit_rotation :: "int \<Rightarrow> int" where
  "limit_rotation desired_rotation =
     (if desired_rotation > rotate_limit then rotate_limit
      else if desired_rotation < - rotate_limit then - rotate_limit
      else desired_rotation)"

definition limit_power :: "int \<Rightarrow> int" where
  "limit_power desired_power =
     (if desired_power < MIN_POWER then MIN_POWER
      else if desired_power > MAX_POWER then MAX_POWER
      else desired_power)"

text \<open>
  \<^verbatim>\<open>State.control_rotate\<close>: \<^verbatim>\<open>round(self.update_rotation())\<close>, then the limits;
  \<^verbatim>\<open>round(None)\<close> raises \<open>TypeError\<close>. The lander is returned with the state that
  \<^verbatim>\<open>update_rotation\<close> left active.
\<close>

definition control_rotate :: "Lander \<Rightarrow> error + (int \<times> Lander)" where
  "control_rotate l =
     (case update_rotation l of
        Inl e \<Rightarrow> Inl e
      | Inr (None, l') \<Rightarrow> Inl TypeError
      | Inr (Some d, l') \<Rightarrow> Inr (limit_rotation (py_round d), l'))"

definition control_power :: "Lander \<Rightarrow> int" where
  "control_power l = limit_power (py_round (update_power l))"

text \<open>
  \<^verbatim>\<open>Lander.control\<close>: the format arguments are evaluated left to right, so
  \<^verbatim>\<open>control_power\<close> is asked of the state that \<^verbatim>\<open>control_rotate\<close> left active. The
  result is the printed pair and the lander afterwards.
\<close>

definition control :: "Lander \<Rightarrow> error + ((int \<times> int) \<times> Lander)" where
  "control l =
     (case control_rotate l of
        Inl e \<Rightarrow> Inl e
      | Inr (r, l') \<Rightarrow> Inr ((r, control_power l'), l'))"

section \<open>Notions used by the properties\<close>

text \<open>
  The state objects the program itself builds: \<^verbatim>\<open>Hover(self, None)\<close> in the lander's
  constructor, \<^verbatim>\<open>StopOverLandingSpot(lander, None)\<close> (the object is the same for every
  designator given to the constructor), \<^verbatim>\<open>Descend(lander)\<close> and
  \<^verbatim>\<open>Stop(lander, StopOverLandingSpot)\<close>.
\<close>

definition program_state :: "State \<Rightarrow> bool" where
  "program_state s \<longleftrightarrow>
     s = Hover_init None \<or> s = StopOverLandingSpot_init None \<or>
     s = Descend_init None \<or> s = Stop_init (Some StopOverLandingSpot)"

text \<open>
  The states the lander can hold when it starts in \<^verbatim>\<open>StopOverLandingSpot\<close>: every
  assignment to \<^verbatim>\<open>lander.state\<close> is a \<open>Delegate\<close> of some method body, run on a lander
  that holds a state reached before, with any telemetry and any landing spot.
\<close>

inductive reachable :: "State \<Rightarrow> bool" where
  initial: "reachable (StopOverLandingSpot_init ns)"
| transition: "reachable (state l) \<Longrightarrow> update_rotation_body l = Inr (Delegate l') \<Longrightarrow>
     reachable (state l')"

text \<open>
  Rounding as the specification words it, for comparison with \<open>py_round\<close>: the nearest
  integer, an exact half going away from zero.
\<close>

definition round_half_away_from_zero :: "real \<Rightarrow> int" where
  "round_half_away_from_zero d = (if d \<ge> 0 then \<lfloor>d + 1 / 2\<rfloor> else - \<lfloor>- d + 1 / 2\<rfloor>)"

text \<open>
  The scenario used for concrete runs: the landing spot from (0,100) to (1000,100) and a
  lander at x = 1500, y = 2000 moving left at 50, in the state \<^verbatim>\<open>StopOverLandingSpot\<close>.
\<close>

definition example_spot :: LandingSpot where
  "example_spot = LandingSpot_init \<lparr>px = 0, py = 100\<rparr> \<lparr>px = 1000, py = 100\<rparr>"

definition example_lander :: Lander where
  "example_lander =
     \<lparr>landing_spot = example_spot, lander_x = 1500, lander_y = 2000, speed_h = - 50,
      speed_v = 0, fuel = 500, rotate_l = 0, power_l = 0,
      state = StopOverLandingSpot_init None\<rparr>"

section \<open>Landing-zone detection\<close>

lemma find_safe_spot_loop_fail:
  "find_safe_spot_loop a ps = Inl e \<Longrightarrow>
     e = FailedToFindSafeSpot \<and> (\<forall>i. \<not> flat_pair (a # ps) i)"
proof (induction ps arbitrary: a)
  case Nil
  then show ?case by (simp add: flat_pair_def)
next
  case (Cons b ps)
  from Cons.prems have nb: "\<not> (py b = py a \<and> px b - px a \<ge> 1000)"
    and rec: "find_safe_spot_loop b ps = Inl e"
    by (auto split: if_splits)
  from Cons.IH[OF rec] have e: "e = FailedToFindSafeSpot"
    and none: "\<forall>i. \<not> flat_pair (b # ps) i" by auto
  have "\<not> flat_pair (a # b # ps) i" for i
  proof (cases i)
    case 0
    with nb show ?thesis by (simp add: flat_pair_def)
  next
    case (Suc j)
    with none[rule_format, of j] show ?thesis by (simp add: flat_pair_def)
  qed
  with e show ?case by simp
qed

lemma find_safe_spot_loop_ok:
  "find_safe_spot_loop a ps = Inr z \<Longrightarrow>
     \<exists>i. flat_pair (a # ps) i \<and> (\<forall>j<i. \<not> flat_pair (a # ps) j) \<and>
         z = LandingSpot_init ((a # ps) ! i) ((a # ps) ! Suc i)"
proof (induction ps arbitrary: a)
  case Nil
  then show ?case by simp
next
  case (Cons b ps)
  show ?case
  proof (cases "py b = py a \<and> px b - px a \<ge> 1000")
    case True
    with Cons.prems have "z = LandingSpot_init a b" by simp
    with True have "flat_pair (a # b # ps) 0 \<and> (\<forall>j<0. \<not> flat_pair (a # b # ps) j) \<and>
         z = LandingSpot_init ((a # b # ps) ! 0) ((a # b # ps) ! Suc 0)"
      by (simp add: flat_pair_def)
    then show ?thesis by blast
  next
    case False
    with Cons.prems have rec: "find_safe_spot_loop b ps = Inr z" by simp
    from Cons.IH[OF rec] obtain i where i: "flat_pair (b # ps) i"
      and first: "\<forall>j<i. \<not> flat_pair (b # ps) j"
      and z: "z = LandingSpot_init ((b # ps) ! i) ((b # ps) ! Suc i)" by blast
    have 1: "flat_pair (a # b # ps) (Suc i)" using i by (simp add: flat_pair_def)
    have 2: "\<not> flat_pair (a # b # ps) j" if "j < Suc i" for j
    proof (cases j)
      case 0
      with False show ?thesis by (simp add: flat_pair_def)
    next
      case (Suc k)
      with that first[rule_format, of k] show ?thesis by (simp add: flat_pair_def)
    qed
    have 3: "z = LandingSpot_init ((a # b # ps) ! Suc i) ((a # b # ps) ! Suc (Suc i))"
      using z by simp
    from 1 2 3 show ?thesis by blast
  qed
qed

text \<open>
  C2. On every non-empty terrain profile (so in particular on every profile of at least
  two points, ascending or not) \<open>find_safe_spot\<close> either returns the landing spot built
  from the first adjacent pair, in terrain order, of equal height and at least 1000 apart
  (left = a.x, right = b.x, height = a.y), or raises the "failed to find safe spot"
  exception, and it raises exactly when no adjacent pair qualifies. On the profile
  (0,100), (1000,100), (1500,200) it returns left 0, right 1000, height 100.
\<close>

theorem find_safe_spot_first_pair:
  "ps \<noteq> [] \<Longrightarrow>
     (case find_safe_spot ps of
        Inr z \<Rightarrow> \<exists>i. flat_pair ps i \<and> (\<forall>j<i. \<not> flat_pair ps j) \<and>
                   z = LandingSpot_init (ps ! i) (ps ! Suc i) \<and>
                   left z = px (ps ! i) \<and> right z = px (ps ! Suc i) \<and> height z = py (ps ! i)
      | Inl e \<Rightarrow> e = FailedToFindSafeSpot \<and> (\<forall>i. \<not> flat_pair ps i))
     \<and> (find_safe_spot ps = Inl FailedToFindSafeSpot \<longleftrightarrow> (\<forall>i. \<not> flat_pair ps i))
     \<and> (let z = LandingSpot_init \<lparr>px = 0, py = 100\<rparr> \<lparr>px = 1000, py = 100\<rparr> in
          find_safe_spot [\<lparr>px = 0, py = 100\<rparr>, \<lparr>px = 1000, py = 100\<rparr>, \<lparr>px = 1500, py = 200\<rparr>]
            = Inr z \<and> left z = 0 \<and> right z = 1000 \<and> height z = 100)"
proof -
  assume "ps \<noteq> []"
  then obtain a rest where ps: "ps = a # rest" by (cases ps) auto
  have A: "(case find_safe_spot ps of
        Inr z \<Rightarrow> \<exists>i. flat_pair ps i \<and> (\<forall>j<i. \<not> flat_pair ps j) \<and>
                   z = LandingSpot_init (ps ! i) (ps ! Suc i) \<and>
                   left z = px (ps ! i) \<and> right z = px (ps ! Suc i) \<and> height z = py (ps ! i)
      | Inl e \<Rightarrow> e = FailedToFindSafeSpot \<and> (\<forall>i. \<not> flat_pair ps i))"
  proof (cases "find_safe_spot_loop a rest")
    case (Inl e)
    with find_safe_spot_loop_fail[OF Inl] show ?thesis
      by (simp add: ps find_safe_spot_def)
  next
    case (Inr z)
    from find_safe_spot_loop_ok[OF Inr] obtain i where
      "flat_pair ps i" "\<forall>j<i. \<not> flat_pair ps j" "z = LandingSpot_init (ps ! i) (ps ! Suc i)"
      unfolding ps by blast
    then have "\<exists>i. flat_pair ps i \<and> (\<forall>j<i. \<not> flat_pair ps j) \<and>
                   z = LandingSpot_init (ps ! i) (ps ! Suc i) \<and>
                   left z = px (ps ! i) \<and> right z = px (ps ! Suc i) \<and> height z = py (ps ! i)"
      by (auto simp: LandingSpot_init_def)
    with Inr show ?thesis by (simp add: ps find_safe_spot_def)
  qed
  have B: "find_safe_spot ps = Inl FailedToFindSafeSpot \<longleftrightarrow> (\<forall>i. \<not> flat_pair ps i)"
    using A by (cases "find_safe_spot ps") auto
  have C: "(let z = LandingSpot_init \<lparr>px = 0, py = 100\<rparr> \<lparr>px = 1000, py = 100\<rparr> in
          find_safe_spot [\<lparr>px = 0, py = 100\<rparr>, \<lparr>px = 1000, py = 100\<rparr>, \<lparr>px = 1500, py = 200\<rparr>]
            = Inr z \<and> left z = 0 \<and> right z = 1000 \<and> height z = 100)"
    by (simp add: find_safe_spot_def LandingSpot_init_def)
  from A B C show ?thesis by blast
qed

theorem find_safe_spot_first_pair_witness:
  "[\<lparr>px = 0, py = 100\<rparr>, \<lparr>px = 1000, py = 100\<rparr>, \<lparr>px = 1500, py = 200\<rparr>] \<noteq> [] \<and>
   flat_pair [\<lparr>px = 0, py = 100\<rparr>, \<lparr>px = 1000, py = 100\<rparr>, \<lparr>px = 1500, py = 200\<rparr>] 0 \<and>
   find_safe_spot [\<lparr>px = 0, py = 100\<rparr>, \<lparr>px = 1000, py = 100\<rparr>, \<lparr>px = 1500, py = 200\<rparr>]
     \<noteq> Inl FailedToFindSafeSpot"
proof -
  let ?ps = "[\<lparr>px = 0, py = 100\<rparr>, \<lparr>px = 1000, py = 100\<rparr>, \<lparr>px = 1500, py = 200\<rparr>]"
  have ne: "?ps \<noteq> []" by simp
  have fp: "flat_pair ?ps 0" by (simp add: flat_pair_def)
  from find_safe_spot_first_pair[OF ne]
  have "find_safe_spot ?ps = Inl FailedToFindSafeSpot \<longleftrightarrow> (\<forall>i. \<not> flat_pair ?ps i)"
    by blast
  with fp have "find_safe_spot ?ps \<noteq> Inl FailedToFindSafeSpot" by blast
  with ne fp show ?thesis by blast
qed

section \<open>Rounding, limiting and the rotation of each state\<close>

lemma py_round_frac: "0 \<le> d - of_int \<lfloor>d\<rfloor> \<and> d - of_int \<lfloor>d\<rfloor> < (1::real)"
  by linarith

lemma py_round_near: "\<bar>of_int (py_round d) - d\<bar> \<le> 1 / 2"
  using py_round_frac[of d] by (auto simp: py_round_def Let_def)

lemma py_round_half_even: "\<bar>of_int (py_round d) - d\<bar> = 1 / 2 \<Longrightarrow> even (py_round d)"
  using py_round_frac[of d] by (auto simp: py_round_def Let_def split: if_splits)

lemma py_round_of_int: "py_round (of_int n) = n"
  by (simp add: py_round_def)

lemma limit_rotation_range: "- 90 \<le> limit_rotation n \<and> limit_rotation n \<le> 90"
  by (simp add: limit_rotation_def rotate_limit_def MAX_ROTATION_def)

lemma limit_rotation_clamp: "limit_rotation n = max (- 90) (min 90 n)"
  by (simp add: limit_rotation_def rotate_limit_def MAX_ROTATION_def)

lemma limit_power_range: "0 \<le> limit_power n \<and> limit_power n \<le> 4"
  by (simp add: limit_power_def MIN_POWER_def MAX_POWER_def)

lemma limit_power_clamp: "limit_power n = max 0 (min 4 n)"
  by (simp add: limit_power_def MIN_POWER_def MAX_POWER_def)

lemma update_rotation_Return:
  "update_rotation_body l = Inr (Return v) \<Longrightarrow> update_rotation l = Inr (v, l)"
  by (simp add: update_rotation.simps)

lemma update_rotation_Delegate:
  "update_rotation_body l = Inr (Delegate l') \<Longrightarrow> update_rotation l = update_rotation l'"
  by (subst update_rotation.simps) simp

lemma update_rotation_error:
  "update_rotation_body l = Inl e \<Longrightarrow> update_rotation l = Inl e"
  by (simp add: update_rotation.simps)

lemma Hover_rotation:
  "cls (state l) = Hover \<Longrightarrow> update_rotation l = Inr (Some (of_int (speed_h l)), l)"
  by (rule update_rotation_Return) (simp add: update_rotation_body_def Hover_update_rotation_def)

lemma Descend_rotation:
  "cls (state l) = Descend \<Longrightarrow>
     update_rotation l = Inr (Some (if altitude l > 100 then of_int (speed_h l) else 0), l)"
  by (rule update_rotation_Return)
     (simp add: update_rotation_body_def Descend_update_rotation_def LANDING_ALTITUDE_def)

lemma Stop_rotation_fast:
  "cls (state l) = Stop \<Longrightarrow> \<not> \<bar>speed_h l\<bar> \<le> 20 \<Longrightarrow>
     update_rotation l = Inr (Some (of_int (speed_h l) * 0.5), l)"
  by (rule update_rotation_Return)
     (auto simp: update_rotation_body_def Stop_update_rotation_def Stop_cutoff_def Stop_scale_def)

lemma Stop_body_slow:
  "cls (state l) = Stop \<Longrightarrow> \<bar>speed_h l\<bar> \<le> 20 \<Longrightarrow> next_state (state l) = Some c \<Longrightarrow>
     call_class c [None] = Inr s \<Longrightarrow>
     update_rotation_body l = Inr (Delegate (l\<lparr>state := s\<rparr>))"
  by (auto simp: update_rotation_body_def Stop_update_rotation_def Stop_cutoff_def
        call_next_state_def)

lemma StopOverLandingSpot_body_fast:
  "cls (state l) = StopOverLandingSpot \<Longrightarrow> \<not> \<bar>speed_h l\<bar> \<le> 20 \<Longrightarrow>
     update_rotation_body l = Inr (Delegate (l\<lparr>state := Stop_init (Some StopOverLandingSpot)\<rparr>))"
  by (auto simp: update_rotation_body_def StopOverLandingSpot_update_rotation_def
        is_too_fast_def MAX_SPEED_def transition_to_stop_def)

lemma StopOverLandingSpot_body_over:
  "cls (state l) = StopOverLandingSpot \<Longrightarrow> next_state (state l) = Some Descend \<Longrightarrow>
     \<bar>speed_h l\<bar> \<le> 20 \<Longrightarrow> is_over_landing_spot l \<Longrightarrow>
     update_rotation_body l = Inr (Delegate (l\<lparr>state := Descend_init None\<rparr>))"
  by (auto simp: update_rotation_body_def StopOverLandingSpot_update_rotation_def
        is_too_fast_def has_safe_speed_def MAX_SPEED_def stop_and_transition_to_next_state_def
        call_next_state_def)

lemma move_towards_value:
  "\<not> is_over_landing_spot l \<Longrightarrow> \<exists>d. move_towards_landing_spot l = Inr (Some d)"
  by (auto simp: move_towards_landing_spot_def scaled_distance_def distance_to_landing_spot_def
        is_over_landing_spot_def is_left_of_landing_spot_def is_right_of_landing_spot_def)

lemma StopOverLandingSpot_body_move:
  "cls (state l) = StopOverLandingSpot \<Longrightarrow> \<bar>speed_h l\<bar> \<le> 20 \<Longrightarrow> \<not> is_over_landing_spot l \<Longrightarrow>
     \<exists>d. move_towards_landing_spot l = Inr (Some d) \<and> update_rotation_body l = Inr (Return (Some d))"
  using move_towards_value[of l]
  by (auto simp: update_rotation_body_def StopOverLandingSpot_update_rotation_def
        is_too_fast_def MAX_SPEED_def)

lemma StopOverLandingSpot_rotation_fast:
  assumes "cls (state l) = StopOverLandingSpot" "\<not> \<bar>speed_h l\<bar> \<le> 20"
  shows "update_rotation l =
     Inr (Some (of_int (speed_h l) * 0.5), l\<lparr>state := Stop_init (Some StopOverLandingSpot)\<rparr>)"
proof -
  let ?l' = "l\<lparr>state := Stop_init (Some StopOverLandingSpot)\<rparr>"
  have "update_rotation l = update_rotation ?l'"
    by (rule update_rotation_Delegate[OF StopOverLandingSpot_body_fast[OF assms]])
  also have "\<dots> = Inr (Some (of_int (speed_h ?l') * 0.5), ?l')"
    by (rule Stop_rotation_fast) (use assms in \<open>simp_all add: Stop_init_def\<close>)
  finally show ?thesis by simp
qed

lemma StopOverLandingSpot_rotation_over:
  assumes "cls (state l) = StopOverLandingSpot" "next_state (state l) = Some Descend"
    "\<bar>speed_h l\<bar> \<le> 20" "is_over_landing_spot l"
  shows "update_rotation l =
     Inr (Some (if altitude l > 100 then of_int (speed_h l) else 0), l\<lparr>state := Descend_init None\<rparr>)"
proof -
  let ?l' = "l\<lparr>state := Descend_init None\<rparr>"
  have "update_rotation l = update_rotation ?l'"
    by (rule update_rotation_Delegate[OF StopOverLandingSpot_body_over[OF assms]])
  also have "\<dots> = Inr (Some (if altitude ?l' > 100 then of_int (speed_h ?l') else 0), ?l')"
    by (rule Descend_rotation) (simp add: Descend_init_def)
  finally show ?thesis by (simp add: altitude_def)
qed

lemma StopOverLandingSpot_rotation_move:
  assumes "cls (state l) = StopOverLandingSpot" "\<bar>speed_h l\<bar> \<le> 20" "\<not> is_over_landing_spot l"
  shows "\<exists>d. move_towards_landing_spot l = Inr (Some d) \<and> update_rotation l = Inr (Some d, l)"
  using StopOverLandingSpot_body_move[OF assms] update_rotation_Return by blast

lemma StopOverLandingSpot_rotation_total:
  assumes "cls (state l) = StopOverLandingSpot" "next_state (state l) = Some Descend"
  shows "\<exists>d l'. update_rotation l = Inr (Some d, l')"
proof (cases "\<bar>speed_h l\<bar> \<le> 20")
  case False
  from StopOverLandingSpot_rotation_fast[OF assms(1) False] show ?thesis by blast
next
  case slow: True
  show ?thesis
  proof (cases "is_over_landing_spot l")
    case True
    from StopOverLandingSpot_rotation_over[OF assms slow True] show ?thesis by blast
  next
    case False
    from StopOverLandingSpot_rotation_move[OF assms(1) slow False] show ?thesis by blast
  qed
qed

lemma Stop_rotation_slow:
  assumes "cls (state l) = Stop" "\<bar>speed_h l\<bar> \<le> 20" "next_state (state l) = Some c"
    "call_class c [None] = Inr s"
  shows "update_rotation l = update_rotation (l\<lparr>state := s\<rparr>)"
  by (rule update_rotation_Delegate[OF Stop_body_slow[OF assms]])

lemma program_state_rotation_total:
  assumes "program_state (state l)"
  shows "\<exists>d l'. update_rotation l = Inr (Some d, l')"
proof -
  consider (hover) "state l = Hover_init None" | (approach) "state l = StopOverLandingSpot_init None"
    | (descend) "state l = Descend_init None" | (stop) "state l = Stop_init (Some StopOverLandingSpot)"
    using assms unfolding program_state_def by blast
  then show ?thesis
  proof cases
    case hover
    then have "cls (state l) = Hover" by (simp add: Hover_init_def)
    from Hover_rotation[OF this] show ?thesis by blast
  next
    case approach
    then have "cls (state l) = StopOverLandingSpot" "next_state (state l) = Some Descend"
      by (simp_all add: StopOverLandingSpot_init_def)
    then show ?thesis by (rule StopOverLandingSpot_rotation_total)
  next
    case descend
    then have "cls (state l) = Descend" by (simp add: Descend_init_def)
    from Descend_rotation[OF this] show ?thesis by blast
  next
    case stop
    then have c: "cls (state l) = Stop" and n: "next_state (state l) = Some StopOverLandingSpot"
      by (simp_all add: Stop_init_def)
    show ?thesis
    proof (cases "\<bar>speed_h l\<bar> \<le> 20")
      case False
      from Stop_rotation_fast[OF c False] show ?thesis by blast
    next
      case True
      have "update_rotation l = update_rotation (l\<lparr>state := StopOverLandingSpot_init None\<rparr>)"
        by (rule Stop_rotation_slow[OF c True n]) simp
      moreover have "\<exists>d l'. update_rotation (l\<lparr>state := StopOverLandingSpot_init None\<rparr>) = Inr (Some d, l')"
        by (rule StopOverLandingSpot_rotation_total) (simp_all add: StopOverLandingSpot_init_def)
      ultimately show ?thesis by simp
    qed
  qed
qed

lemma control_shape:
  "control l = Inr ((r, p), l') \<Longrightarrow>
     \<exists>d. update_rotation l = Inr (Some d, l') \<and> r = limit_rotation (py_round d) \<and>
         p = limit_power (py_round (update_power l'))"
  by (auto simp: control_def control_rotate_def control_power_def
        split: sum.splits option.splits prod.splits)

lemma control_of_rotation:
  "update_rotation l = Inr (Some d, l') \<Longrightarrow>
     control l = Inr ((limit_rotation (py_round d), limit_power (py_round (update_power l'))), l')"
  by (simp add: control_def control_rotate_def control_power_def)

lemmas eval_defs = example_lander_def example_spot_def LandingSpot_init_def
  update_rotation.simps update_rotation_body_def
  Hover_update_rotation_def Descend_update_rotation_def Stop_update_rotation_def
  StopOverLandingSpot_update_rotation_def transition_to_stop_def
  stop_and_transition_to_next_state_def move_towards_landing_spot_def scaled_distance_def
  distance_to_landing_spot_def call_next_state_def
  is_too_fast_def has_safe_speed_def is_over_landing_spot_def is_left_of_landing_spot_def
  is_right_of_landing_spot_def altitude_def
  Hover_init_def Descend_init_def Stop_init_def StopOverLandingSpot_init_def
  MAX_SPEED_def MAX_ANGLE_def HOVER_ANGLE_def StopOverLandingSpot_scale_def
  Stop_cutoff_def Stop_scale_def LANDING_ALTITUDE_def SAFE_DESCENT_SPEED_def
  control_def control_rotate_def control_power_def update_power_def
  Hover_update_power_def StopOverLandingSpot_update_power_def Descend_update_power_def
  is_not_safe_to_land_def descent_is_too_fast_def
  limit_rotation_def limit_power_def rotate_limit_def MAX_ROTATION_def MIN_POWER_def
  MAX_POWER_def py_round_def Let_def

section \<open>The command envelope\<close>

text \<open>
  C1. The encoder: for every real-valued desired rotation d and desired power e, the
  rounded and limited values satisfy -90 \<le> limit_rotation (round d) \<le> 90 and
  0 \<le> limit_power (round e) \<le> 4, and they are the rounded value clamped into [-90, 90]
  and into [0, 4]. The tick: for every lander (any telemetry, any landing spot), if the
  active state is one the program builds, \<open>control\<close> emits a command; and whenever a
  command (r, p) is emitted, for any state object, r is the encoder's rotation output on
  the desired rotation and p is the encoder's power output on the desired power of the
  state active after the rotation step, so -90 \<le> r \<le> 90 and 0 \<le> p \<le> 4.
\<close>

theorem control_in_range:
  "(\<forall>d. - 90 \<le> limit_rotation (py_round d) \<and> limit_rotation (py_round d) \<le> 90 \<and>
        limit_rotation (py_round d) = max (- 90) (min 90 (py_round d))) \<and>
   (\<forall>e. 0 \<le> limit_power (py_round e) \<and> limit_power (py_round e) \<le> 4 \<and>
        limit_power (py_round e) = max 0 (min 4 (py_round e))) \<and>
   (program_state (state l) \<longrightarrow> (\<exists>r p l'. control l = Inr ((r, p), l'))) \<and>
   (\<forall>r p l'. control l = Inr ((r, p), l') \<longrightarrow>
      - 90 \<le> r \<and> r \<le> 90 \<and> 0 \<le> p \<and> p \<le> 4 \<and>
      (\<exists>d. update_rotation l = Inr (Some d, l') \<and> r = limit_rotation (py_round d) \<and>
           r = max (- 90) (min 90 (py_round d))) \<and>
      p = limit_power (py_round (update_power l')) \<and>
      p = max 0 (min 4 (py_round (update_power l'))))"
proof (intro conjI impI allI)
  fix d :: real
  show "- 90 \<le> limit_rotation (py_round d)" "limit_rotation (py_round d) \<le> 90"
    using limit_rotation_range[of "py_round d"] by simp_all
  show "limit_rotation (py_round d) = max (- 90) (min 90 (py_round d))"
    by (rule limit_rotation_clamp)
next
  fix e :: real
  show "0 \<le> limit_power (py_round e)" "limit_power (py_round e) \<le> 4"
    using limit_power_range[of "py_round e"] by simp_all
  show "limit_power (py_round e) = max 0 (min 4 (py_round e))"
    by (rule limit_power_clamp)
next
  assume "program_state (state l)"
  from program_state_rotation_total[OF this] obtain d l' where
    "update_rotation l = Inr (Some d, l')" by blast
  from control_of_rotation[OF this] show "\<exists>r p l'. control l = Inr ((r, p), l')" by blast
next
  fix r p l'
  assume c: "control l = Inr ((r, p), l')"
  from control_shape[OF c] obtain d where d: "update_rotation l = Inr (Some d, l')"
    and r: "r = limit_rotation (py_round d)"
    and p: "p = limit_power (py_round (update_power l'))" by blast
  show "- 90 \<le> r" "r \<le> 90" using r limit_rotation_range[of "py_round d"] by simp_all
  show "0 \<le> p" "p \<le> 4" using p limit_power_range[of "py_round (update_power l')"] by simp_all
  show "\<exists>d. update_rotation l = Inr (Some d, l') \<and> r = limit_rotation (py_round d) \<and>
           r = max (- 90) (min 90 (py_round d))"
    using d r limit_rotation_clamp by blast
  show "p = limit_power (py_round (update_power l'))" by (rule p)
  show "p = max 0 (min 4 (py_round (update_power l')))"
    using p limit_power_clamp by simp
qed

theorem control_in_range_witness:
  "program_state (state example_lander) \<and>
   control example_lander =
     Inr ((- 25, 4), example_lander\<lparr>state := Stop_init (Some StopOverLandingSpot)\<rparr>) \<and>
   (\<exists>r p l'. control example_lander = Inr ((r, p), l')) \<and>
   - 90 \<le> (- 25 :: int) \<and> (- 25 :: int) \<le> 90 \<and> (0::int) \<le> 4 \<and> (4::int) \<le> 4 \<and>
   limit_power (py_round 7) = 4 \<and> limit_power (py_round (- 3 / 2)) = 0 \<and>
   limit_rotation (py_round (247 / 2)) = 90 \<and> limit_rotation (py_round (- 1000)) = - 90"
proof -
  have ps: "program_state (state example_lander)"
    by (auto simp: program_state_def example_lander_def)
  have c: "control example_lander =
     Inr ((- 25, 4), example_lander\<lparr>state := Stop_init (Some StopOverLandingSpot)\<rparr>)"
    by (simp add: eval_defs)
  note t = control_in_range[of example_lander]
  from t ps have ex: "\<exists>r p l'. control example_lander = Inr ((r, p), l')" by blast
  from t c
  have bounds: "- 90 \<le> (- 25 :: int) \<and> (- 25 :: int) \<le> 90 \<and> (0::int) \<le> 4 \<and> (4::int) \<le> 4"
    by blast
  from t have "limit_power (py_round 7) = max 0 (min 4 (py_round 7))"
    and "limit_power (py_round (- 3 / 2)) = max 0 (min 4 (py_round (- 3 / 2)))"
    and "limit_rotation (py_round (247 / 2)) = max (- 90) (min 90 (py_round (247 / 2)))"
    and "limit_rotation (py_round (- 1000)) = max (- 90) (min 90 (py_round (- 1000)))"
    by blast+
  then have enc: "limit_power (py_round 7) = 4 \<and> limit_power (py_round (- 3 / 2)) = 0 \<and>
      limit_rotation (py_round (247 / 2)) = 90 \<and> limit_rotation (py_round (- 1000)) = - 90"
    by (simp add: py_round_def)
  from ps c ex bounds enc show ?thesis by blast
qed

section \<open>Transitions of the state machine\<close>

lemma control_cong: "update_rotation l = update_rotation k \<Longrightarrow> control l = control k"
  by (simp add: control_def control_rotate_def)

text \<open>
  C3. With \<^verbatim>\<open>StopOverLandingSpot\<close> active, the method body hands over to a \<^verbatim>\<open>Descend\<close>
  state exactly when the lander is over the landing spot and |speed_h| \<le> 20, and the
  state active after the tick is \<^verbatim>\<open>Descend\<close> exactly then. At x = left (of a spot with
  left \<le> right) and speed_h = 20 the tick ends in \<^verbatim>\<open>Descend\<close>; at the same position with
  speed_h = 21 it ends in \<^verbatim>\<open>Stop\<close> with \<^verbatim>\<open>StopOverLandingSpot\<close> as the state to return to.
\<close>

theorem approach_to_descend:
  assumes "state l = StopOverLandingSpot_init ns"
  shows "((\<exists>l'. update_rotation_body l = Inr (Delegate l') \<and> cls (state l') = Descend) \<longleftrightarrow>
            is_over_landing_spot l \<and> \<bar>speed_h l\<bar> \<le> 20) \<and>
         (\<exists>c l'. control l = Inr (c, l') \<and>
            (cls (state l') = Descend \<longleftrightarrow> is_over_landing_spot l \<and> \<bar>speed_h l\<bar> \<le> 20)) \<and>
         (lander_x l = left (landing_spot l) \<and> left (landing_spot l) \<le> right (landing_spot l) \<and>
            speed_h l = 20 \<longrightarrow>
            (\<exists>c. control l = Inr (c, l\<lparr>state := Descend_init None\<rparr>))) \<and>
         (lander_x l = left (landing_spot l) \<and> left (landing_spot l) \<le> right (landing_spot l) \<and>
            speed_h l = 21 \<longrightarrow>
            (\<exists>c. control l = Inr (c, l\<lparr>state := Stop_init (Some StopOverLandingSpot)\<rparr>)))"
proof -
  from assms have c: "cls (state l) = StopOverLandingSpot"
    and n: "next_state (state l) = Some Descend"
    by (simp_all add: StopOverLandingSpot_init_def)
  have fast: "update_rotation_body l = Inr (Delegate (l\<lparr>state := Stop_init (Some StopOverLandingSpot)\<rparr>)) \<and>
      (\<exists>c. control l = Inr (c, l\<lparr>state := Stop_init (Some StopOverLandingSpot)\<rparr>))"
    if "\<not> \<bar>speed_h l\<bar> \<le> 20"
    using StopOverLandingSpot_body_fast[OF c that]
      control_of_rotation[OF StopOverLandingSpot_rotation_fast[OF c that]] by blast
  have over: "update_rotation_body l = Inr (Delegate (l\<lparr>state := Descend_init None\<rparr>)) \<and>
      (\<exists>c. control l = Inr (c, l\<lparr>state := Descend_init None\<rparr>))"
    if "\<bar>speed_h l\<bar> \<le> 20" "is_over_landing_spot l"
    using StopOverLandingSpot_body_over[OF c n that]
      control_of_rotation[OF StopOverLandingSpot_rotation_over[OF c n that]] by blast
  have move: "(\<exists>d. update_rotation_body l = Inr (Return (Some d))) \<and> (\<exists>c. control l = Inr (c, l))"
    if "\<bar>speed_h l\<bar> \<le> 20" "\<not> is_over_landing_spot l"
  proof -
    from StopOverLandingSpot_body_move[OF c that] obtain d where
      b: "update_rotation_body l = Inr (Return (Some d))" by blast
    from control_of_rotation[OF update_rotation_Return[OF b]] b show ?thesis by blast
  qed
  have A: "(\<exists>l'. update_rotation_body l = Inr (Delegate l') \<and> cls (state l') = Descend) \<longleftrightarrow>
            is_over_landing_spot l \<and> \<bar>speed_h l\<bar> \<le> 20"
  proof (cases "\<bar>speed_h l\<bar> \<le> 20")
    case False
    with fast show ?thesis by (auto simp: Stop_init_def)
  next
    case True
    show ?thesis
    proof (cases "is_over_landing_spot l")
      case over': True
      with over[OF True] True show ?thesis by (auto simp: Descend_init_def)
    next
      case False
      with move[OF True] True show ?thesis by auto
    qed
  qed
  have B: "\<exists>c l'. control l = Inr (c, l') \<and>
            (cls (state l') = Descend \<longleftrightarrow> is_over_landing_spot l \<and> \<bar>speed_h l\<bar> \<le> 20)"
  proof (cases "\<bar>speed_h l\<bar> \<le> 20")
    case False
    from fast[OF False] obtain c where
      "control l = Inr (c, l\<lparr>state := Stop_init (Some StopOverLandingSpot)\<rparr>)" by blast
    with False show ?thesis by (auto simp: Stop_init_def)
  next
    case True
    show ?thesis
    proof (cases "is_over_landing_spot l")
      case over': True
      from over[OF True over'] obtain c where
        "control l = Inr (c, l\<lparr>state := Descend_init None\<rparr>)" by blast
      with True over' show ?thesis by (auto simp: Descend_init_def)
    next
      case False
      from move[OF True False] obtain c' where "control l = Inr (c', l)" by blast
      with True False c show ?thesis by auto
    qed
  qed
  have C: "\<exists>c. control l = Inr (c, l\<lparr>state := Descend_init None\<rparr>)"
    if "lander_x l = left (landing_spot l) \<and> left (landing_spot l) \<le> right (landing_spot l) \<and>
            speed_h l = 20"
    using over[of] that by (simp add: is_over_landing_spot_def)
  have D: "\<exists>c. control l = Inr (c, l\<lparr>state := Stop_init (Some StopOverLandingSpot)\<rparr>)"
    if "lander_x l = left (landing_spot l) \<and> left (landing_spot l) \<le> right (landing_spot l) \<and>
            speed_h l = 21"
    using fast that by simp
  from A B C D show ?thesis by blast
qed


theorem approach_to_descend_witness:
  "state (example_lander\<lparr>lander_x := 0, speed_h := 20\<rparr>) = StopOverLandingSpot_init None \<and>
   lander_x (example_lander\<lparr>lander_x := 0, speed_h := 20\<rparr>) =
     left (landing_spot (example_lander\<lparr>lander_x := 0, speed_h := 20\<rparr>)) \<and>
   left (landing_spot (example_lander\<lparr>lander_x := 0, speed_h := 20\<rparr>)) \<le>
     right (landing_spot (example_lander\<lparr>lander_x := 0, speed_h := 20\<rparr>)) \<and>
   speed_h (example_lander\<lparr>lander_x := 0, speed_h := 20\<rparr>) = 20 \<and>
   (\<exists>c. control (example_lander\<lparr>lander_x := 0, speed_h := 20\<rparr>) =
      Inr (c, example_lander\<lparr>lander_x := 0, speed_h := 20, state := Descend_init None\<rparr>)) \<and>
   state (example_lander\<lparr>lander_x := 0, speed_h := 21\<rparr>) = StopOverLandingSpot_init None \<and>
   (\<exists>c. control (example_lander\<lparr>lander_x := 0, speed_h := 21\<rparr>) =
      Inr (c, example_lander\<lparr>lander_x := 0, speed_h := 21,
                state := Stop_init (Some StopOverLandingSpot)\<rparr>))"
proof -
  let ?a = "example_lander\<lparr>lander_x := 0, speed_h := 20\<rparr>"
  let ?b = "example_lander\<lparr>lander_x := 0, speed_h := 21\<rparr>"
  have sa: "state ?a = StopOverLandingSpot_init None" by (simp add: example_lander_def)
  have sb: "state ?b = StopOverLandingSpot_init None" by (simp add: example_lander_def)
  have ga: "lander_x ?a = left (landing_spot ?a) \<and> left (landing_spot ?a) \<le> right (landing_spot ?a)
      \<and> speed_h ?a = 20"
    by (simp add: example_lander_def example_spot_def LandingSpot_init_def)
  have gb: "lander_x ?b = left (landing_spot ?b) \<and> left (landing_spot ?b) \<le> right (landing_spot ?b)
      \<and> speed_h ?b = 21"
    by (simp add: example_lander_def example_spot_def LandingSpot_init_def)
  from approach_to_descend[OF sa] ga
  have ca: "\<exists>c. control ?a = Inr (c, ?a\<lparr>state := Descend_init None\<rparr>)" by blast
  from approach_to_descend[OF sb] gb
  have cb: "\<exists>c. control ?b = Inr (c, ?b\<lparr>state := Stop_init (Some StopOverLandingSpot)\<rparr>)" by blast
  from sa sb ga ca cb show ?thesis by simp
qed

lemma call_class_designator: "\<exists>s. call_class c [None] = Inr s"
  by (cases c) simp_all

text \<open>
  C4. With \<^verbatim>\<open>Stop\<close> active and holding the designator c of its next state: the designated
  state s is the one the call c(lander, None) builds. If |speed_h| \<le> 20 the method body
  stores s in the lander and hands over to it, and the whole tick (command and lander
  afterwards) equals the tick of the same lander with s active. Otherwise the desired
  rotation is speed_h * 0.5 and the state stays; for speed_h = -50 the rotation command
  is -25.
\<close>

theorem bleed_speed_lookahead:
  assumes "state l = Stop_init (Some c)"
  shows "\<exists>s. call_class c [None] = Inr s \<and>
           (\<bar>speed_h l\<bar> \<le> 20 \<longrightarrow>
              update_rotation_body l = Inr (Delegate (l\<lparr>state := s\<rparr>)) \<and>
              update_rotation l = update_rotation (l\<lparr>state := s\<rparr>) \<and>
              control l = control (l\<lparr>state := s\<rparr>)) \<and>
           (\<not> \<bar>speed_h l\<bar> \<le> 20 \<longrightarrow>
              update_rotation l = Inr (Some (of_int (speed_h l) * 0.5), l) \<and>
              control_rotate l = Inr (limit_rotation (py_round (of_int (speed_h l) * 0.5)), l)) \<and>
           (speed_h l = - 50 \<longrightarrow> control_rotate l = Inr (- 25, l))"
proof -
  from assms have c: "cls (state l) = Stop" and n: "next_state (state l) = Some c"
    by (simp_all add: Stop_init_def)
  obtain s where s: "call_class c [None] = Inr s" using call_class_designator by blast
  have slow: "update_rotation_body l = Inr (Delegate (l\<lparr>state := s\<rparr>)) \<and>
              update_rotation l = update_rotation (l\<lparr>state := s\<rparr>) \<and>
              control l = control (l\<lparr>state := s\<rparr>)" if "\<bar>speed_h l\<bar> \<le> 20"
    using Stop_body_slow[OF c that n s] Stop_rotation_slow[OF c that n s]
      control_cong[OF Stop_rotation_slow[OF c that n s]] by blast
  have fast: "update_rotation l = Inr (Some (of_int (speed_h l) * 0.5), l) \<and>
              control_rotate l = Inr (limit_rotation (py_round (of_int (speed_h l) * 0.5)), l)"
    if "\<not> \<bar>speed_h l\<bar> \<le> 20"
    using Stop_rotation_fast[OF c that] by (simp add: control_rotate_def)
  have ex: "control_rotate l = Inr (- 25, l)" if "speed_h l = - 50"
  proof -
    from that have "\<not> \<bar>speed_h l\<bar> \<le> 20" by simp
    from fast[OF this] that show ?thesis
      by (simp add: limit_rotation_def rotate_limit_def MAX_ROTATION_def py_round_def)
  qed
  from s slow fast ex show ?thesis by blast
qed

theorem bleed_speed_lookahead_witness:
  "state (example_lander\<lparr>speed_h := 20, state := Stop_init (Some StopOverLandingSpot)\<rparr>)
     = Stop_init (Some StopOverLandingSpot) \<and>
   \<bar>speed_h (example_lander\<lparr>speed_h := 20, state := Stop_init (Some StopOverLandingSpot)\<rparr>)\<bar> \<le> 20 \<and>
   control (example_lander\<lparr>speed_h := 20, state := Stop_init (Some StopOverLandingSpot)\<rparr>)
     = control (example_lander\<lparr>speed_h := 20, state := StopOverLandingSpot_init None\<rparr>) \<and>
   control (example_lander\<lparr>speed_h := 20, state := StopOverLandingSpot_init None\<rparr>)
     = Inr ((20, 3), example_lander\<lparr>speed_h := 20, state := StopOverLandingSpot_init None\<rparr>) \<and>
   state (example_lander\<lparr>state := Stop_init (Some StopOverLandingSpot)\<rparr>)
     = Stop_init (Some StopOverLandingSpot) \<and>
   speed_h (example_lander\<lparr>state := Stop_init (Some StopOverLandingSpot)\<rparr>) = - 50 \<and>
   control_rotate (example_lander\<lparr>state := Stop_init (Some StopOverLandingSpot)\<rparr>)
     = Inr (- 25, example_lander\<lparr>state := Stop_init (Some StopOverLandingSpot)\<rparr>)"
proof -
  let ?a = "example_lander\<lparr>speed_h := 20, state := Stop_init (Some StopOverLandingSpot)\<rparr>"
  let ?b = "example_lander\<lparr>state := Stop_init (Some StopOverLandingSpot)\<rparr>"
  have sa: "state ?a = Stop_init (Some StopOverLandingSpot)" by simp
  have sb: "state ?b = Stop_init (Some StopOverLandingSpot)" by simp
  have ha: "\<bar>speed_h ?a\<bar> \<le> 20" by simp
  have hb: "speed_h ?b = - 50" by (simp add: example_lander_def)
  have cc: "call_class StopOverLandingSpot [None] = Inr (StopOverLandingSpot_init None)" by simp
  from bleed_speed_lookahead[OF sa] cc ha
  have 1: "control ?a = control (?a\<lparr>state := StopOverLandingSpot_init None\<rparr>)" by auto
  have 2: "control (example_lander\<lparr>speed_h := 20, state := StopOverLandingSpot_init None\<rparr>)
     = Inr ((20, 3), example_lander\<lparr>speed_h := 20, state := StopOverLandingSpot_init None\<rparr>)"
    by (simp add: eval_defs)
  from bleed_speed_lookahead[OF sb] hb
  have 3: "control_rotate ?b = Inr (- 25, ?b)" by blast
  from sa sb ha hb 1 2 3 show ?thesis by simp
qed

text \<open>
  C10. The state that \<^verbatim>\<open>StopOverLandingSpot\<close>'s constructor builds does not depend on its
  next-state argument: its \<^verbatim>\<open>next_state\<close> is always \<^verbatim>\<open>Descend\<close>. So over the landing
  spot at safe speed it hands over to \<^verbatim>\<open>Descend\<close> whatever designator it was built with,
  and the state that \<^verbatim>\<open>Stop\<close> builds with \<^verbatim>\<open>None\<close> when its goal is met is that same state.
\<close>

theorem approach_successor_is_descend:
  "StopOverLandingSpot_init ns = StopOverLandingSpot_init ns' \<and>
   next_state (StopOverLandingSpot_init ns) = Some Descend \<and>
   call_class StopOverLandingSpot [ns] = Inr (StopOverLandingSpot_init ns) \<and>
   (state l = StopOverLandingSpot_init ns \<and> is_over_landing_spot l \<and> has_safe_speed l \<longrightarrow>
      update_rotation_body l = Inr (Delegate (l\<lparr>state := Descend_init None\<rparr>))) \<and>
   (state l = Stop_init (Some StopOverLandingSpot) \<and> \<bar>speed_h l\<bar> \<le> 20 \<longrightarrow>
      (\<exists>s. update_rotation_body l = Inr (Delegate (l\<lparr>state := s\<rparr>)) \<and>
           s = StopOverLandingSpot_init ns \<and> next_state s = Some Descend))"
proof -
  have A: "StopOverLandingSpot_init ns = StopOverLandingSpot_init ns'"
    and B: "next_state (StopOverLandingSpot_init ns) = Some Descend"
    and C: "call_class StopOverLandingSpot [ns] = Inr (StopOverLandingSpot_init ns)"
    by (simp_all add: StopOverLandingSpot_init_def)
  have D: "update_rotation_body l = Inr (Delegate (l\<lparr>state := Descend_init None\<rparr>))"
    if "state l = StopOverLandingSpot_init ns \<and> is_over_landing_spot l \<and> has_safe_speed l"
  proof (rule StopOverLandingSpot_body_over)
    show "cls (state l) = StopOverLandingSpot" "next_state (state l) = Some Descend"
      using that by (simp_all add: StopOverLandingSpot_init_def)
    show "\<bar>speed_h l\<bar> \<le> 20" using that by (auto simp: has_safe_speed_def MAX_SPEED_def)
    show "is_over_landing_spot l" using that by simp
  qed
  have E: "\<exists>s. update_rotation_body l = Inr (Delegate (l\<lparr>state := s\<rparr>)) \<and>
           s = StopOverLandingSpot_init ns \<and> next_state s = Some Descend"
    if "state l = Stop_init (Some StopOverLandingSpot) \<and> \<bar>speed_h l\<bar> \<le> 20"
  proof -
    have "update_rotation_body l = Inr (Delegate (l\<lparr>state := StopOverLandingSpot_init None\<rparr>))"
      by (rule Stop_body_slow[where c = StopOverLandingSpot])
         (use that in \<open>simp_all add: Stop_init_def\<close>)
    then show ?thesis by (simp add: StopOverLandingSpot_init_def)
  qed
  from A B C D E show ?thesis by blast
qed

theorem approach_successor_is_descend_witness:
  "state (example_lander\<lparr>lander_x := 500, speed_h := 5, state := StopOverLandingSpot_init (Some Hover)\<rparr>)
     = StopOverLandingSpot_init (Some Hover) \<and>
   is_over_landing_spot (example_lander\<lparr>lander_x := 500, speed_h := 5,
      state := StopOverLandingSpot_init (Some Hover)\<rparr>) \<and>
   has_safe_speed (example_lander\<lparr>lander_x := 500, speed_h := 5,
      state := StopOverLandingSpot_init (Some Hover)\<rparr>) \<and>
   update_rotation_body (example_lander\<lparr>lander_x := 500, speed_h := 5,
      state := StopOverLandingSpot_init (Some Hover)\<rparr>)
     = Inr (Delegate (example_lander\<lparr>lander_x := 500, speed_h := 5, state := Descend_init None\<rparr>)) \<and>
   state (example_lander\<lparr>speed_h := 5, state := Stop_init (Some StopOverLandingSpot)\<rparr>)
     = Stop_init (Some StopOverLandingSpot) \<and>
   \<bar>speed_h (example_lander\<lparr>speed_h := 5, state := Stop_init (Some StopOverLandingSpot)\<rparr>)\<bar> \<le> 20 \<and>
   update_rotation_body (example_lander\<lparr>speed_h := 5, state := Stop_init (Some StopOverLandingSpot)\<rparr>)
     = Inr (Delegate (example_lander\<lparr>speed_h := 5, state := StopOverLandingSpot_init (Some Hover)\<rparr>))"
proof -
  let ?a = "example_lander\<lparr>lander_x := 500, speed_h := 5, state := StopOverLandingSpot_init (Some Hover)\<rparr>"
  let ?b = "example_lander\<lparr>speed_h := 5, state := Stop_init (Some StopOverLandingSpot)\<rparr>"
  have a: "state ?a = StopOverLandingSpot_init (Some Hover) \<and> is_over_landing_spot ?a \<and> has_safe_speed ?a"
    by (simp add: example_lander_def example_spot_def LandingSpot_init_def
          is_over_landing_spot_def has_safe_speed_def MAX_SPEED_def)
  have b: "state ?b = Stop_init (Some StopOverLandingSpot) \<and> \<bar>speed_h ?b\<bar> \<le> 20" by simp
  from approach_successor_is_descend[of "Some Hover" "Some Hover" ?a] a
  have 1: "update_rotation_body ?a = Inr (Delegate (?a\<lparr>state := Descend_init None\<rparr>))" by blast
  from approach_successor_is_descend[of "Some Hover" "Some Hover" ?b] b
  have 2: "update_rotation_body ?b = Inr (Delegate (?b\<lparr>state := StopOverLandingSpot_init (Some Hover)\<rparr>))"
    by blast
  from a b 1 2 show ?thesis by simp
qed

lemma body_delegate_cases:
  assumes "update_rotation_body l = Inr (Delegate l')"
  shows "(cls (state l) = StopOverLandingSpot \<and> l' = l\<lparr>state := Stop_init (Some StopOverLandingSpot)\<rparr>) \<or>
         (cls (state l) = StopOverLandingSpot \<and>
            (\<exists>s. call_next_state (next_state (state l)) [] = Inr s \<and> l' = l\<lparr>state := s\<rparr>)) \<or>
         (cls (state l) = Stop \<and>
            (\<exists>s. call_next_state (next_state (state l)) [None] = Inr s \<and> l' = l\<lparr>state := s\<rparr>))"
  using assms
  by (cases "cls (state l)")
     (auto simp: update_rotation_body_def Hover_update_rotation_def Descend_update_rotation_def
        Stop_update_rotation_def StopOverLandingSpot_update_rotation_def transition_to_stop_def
        stop_and_transition_to_next_state_def
        split: if_splits sum.splits)

lemma Descend_body_returns:
  "cls (state l) = Descend \<Longrightarrow> \<exists>v. update_rotation_body l = Inr (Return v)"
  by (simp add: update_rotation_body_def Descend_update_rotation_def)

lemma reachable_cases:
  "reachable s \<Longrightarrow>
     s = StopOverLandingSpot_init None \<or> s = Stop_init (Some StopOverLandingSpot) \<or>
     s = Descend_init None"
proof (induction rule: reachable.induct)
  case (initial ns)
  then show ?case by (simp add: StopOverLandingSpot_init_def)
next
  case (transition l l')
  from body_delegate_cases[OF transition.hyps(2)] transition.IH show ?case
    by (auto simp: StopOverLandingSpot_init_def Stop_init_def Descend_init_def
          call_next_state_def)
qed

lemma reachable_transition_kinds:
  assumes "reachable (state l)" "update_rotation_body l = Inr (Delegate l')"
  shows "(state l = StopOverLandingSpot_init None \<and> state l' = Stop_init (Some StopOverLandingSpot)) \<or>
         (state l = Stop_init (Some StopOverLandingSpot) \<and> state l' = StopOverLandingSpot_init None) \<or>
         (state l = StopOverLandingSpot_init None \<and> state l' = Descend_init None)"
  using body_delegate_cases[OF assms(2)] reachable_cases[OF assms(1)]
  by (auto simp: StopOverLandingSpot_init_def Stop_init_def Descend_init_def call_next_state_def)

lemma reachable_update_rotation:
  "reachable (state l) \<Longrightarrow> update_rotation l = Inr (v, l') \<Longrightarrow> reachable (state l')"
proof (induction l rule: update_rotation.induct)
  case (1 l)
  show ?case
  proof (cases "update_rotation_body l")
    case (Inl e)
    with update_rotation_error[OF Inl] "1.prems" show ?thesis by simp
  next
    case (Inr out)
    show ?thesis
    proof (cases out)
      case (Return w)
      with Inr have "update_rotation l = Inr (w, l)" by (simp add: update_rotation_Return)
      with "1.prems" show ?thesis by simp
    next
      case (Delegate k)
      with Inr have b: "update_rotation_body l = Inr (Delegate k)" by simp
      have rk: "reachable (state k)" by (rule reachable.transition[OF "1.prems"(1) b])
      from update_rotation_Delegate[OF b] "1.prems"(2) have "update_rotation k = Inr (v, l')"
        by simp
      from "1.IH"[OF Inr Delegate rk this] show ?thesis .
    qed
  qed
qed

lemma reachable_control:
  assumes "reachable (state l)" "control l = Inr (c, l')"
  shows "reachable (state l')"
proof -
  obtain r p where "c = (r, p)" by (cases c)
  with control_shape[of l r p l'] assms(2) obtain d where
    "update_rotation l = Inr (Some d, l')" by blast
  from reachable_update_rotation[OF assms(1) this] show ?thesis .
qed

text \<open>
  C5. Starting from \<^verbatim>\<open>StopOverLandingSpot\<close> (built with any designator), every state the
  lander ever holds is \<^verbatim>\<open>StopOverLandingSpot\<close>, \<^verbatim>\<open>Stop\<close> (returning to
  \<^verbatim>\<open>StopOverLandingSpot\<close>) or \<^verbatim>\<open>Descend\<close>, never \<^verbatim>\<open>Hover\<close>; every assignment to
  \<^verbatim>\<open>lander.state\<close> made from such a state goes from \<^verbatim>\<open>StopOverLandingSpot\<close> to \<^verbatim>\<open>Stop\<close>,
  from \<^verbatim>\<open>Stop\<close> to \<^verbatim>\<open>StopOverLandingSpot\<close>, or from \<^verbatim>\<open>StopOverLandingSpot\<close> to
  \<^verbatim>\<open>Descend\<close>; the state after a whole tick is again one of these; and \<^verbatim>\<open>Descend\<close> is
  terminal: its method body returns a value without assigning a state, and a tick
  leaves the lander as it was.
\<close>

theorem reachable_states:
  assumes "reachable s"
  shows "(s = StopOverLandingSpot_init None \<or> s = Stop_init (Some StopOverLandingSpot) \<or>
            s = Descend_init None) \<and>
         cls s \<noteq> Hover \<and>
         (\<forall>l l'. state l = s \<and> update_rotation_body l = Inr (Delegate l') \<longrightarrow>
            (cls s = StopOverLandingSpot \<and> cls (state l') = Stop) \<or>
            (cls s = Stop \<and> cls (state l') = StopOverLandingSpot) \<or>
            (cls s = StopOverLandingSpot \<and> cls (state l') = Descend)) \<and>
         (\<forall>l c l'. state l = s \<and> control l = Inr (c, l') \<longrightarrow> reachable (state l')) \<and>
         (cls s = Descend \<longrightarrow>
            (\<forall>l. state l = s \<longrightarrow>
               (\<exists>v. update_rotation_body l = Inr (Return v)) \<and> (\<exists>c. control l = Inr (c, l))))"
proof -
  note cases = reachable_cases[OF assms]
  have A: "cls s \<noteq> Hover"
    using cases by (auto simp: StopOverLandingSpot_init_def Stop_init_def Descend_init_def)
  have B: "(cls s = StopOverLandingSpot \<and> cls (state l') = Stop) \<or>
            (cls s = Stop \<and> cls (state l') = StopOverLandingSpot) \<or>
            (cls s = StopOverLandingSpot \<and> cls (state l') = Descend)"
    if "state l = s \<and> update_rotation_body l = Inr (Delegate l')" for l l'
  proof -
    from that assms have "reachable (state l)" "update_rotation_body l = Inr (Delegate l')"
      by simp_all
    from reachable_transition_kinds[OF this] that show ?thesis
      by (auto simp: StopOverLandingSpot_init_def Stop_init_def Descend_init_def)
  qed
  have C: "reachable (state l')" if "state l = s \<and> control l = Inr (c, l')" for l c l'
    using reachable_control[of l c l'] that assms by simp
  have D: "(\<exists>v. update_rotation_body l = Inr (Return v)) \<and> (\<exists>c. control l = Inr (c, l))"
    if "cls s = Descend" "state l = s" for l
  proof -
    from that have d: "cls (state l) = Descend" by simp
    from control_of_rotation[OF Descend_rotation[OF d]] Descend_body_returns[OF d]
    show ?thesis by blast
  qed
  from cases A B C D show ?thesis by blast
qed

theorem reachable_states_witness:
  "reachable (Stop_init (Some StopOverLandingSpot)) \<and>
   cls (Stop_init (Some StopOverLandingSpot)) \<noteq> Hover \<and>
   reachable (Descend_init None) \<and>
   cls (Descend_init None) = Descend \<and>
   state (example_lander\<lparr>state := Descend_init None\<rparr>) = Descend_init None \<and>
   (\<exists>c. control (example_lander\<lparr>state := Descend_init None\<rparr>)
      = Inr (c, example_lander\<lparr>state := Descend_init None\<rparr>))"
proof -
  have r0: "reachable (state example_lander)"
    unfolding example_lander_def by (simp add: reachable.initial)
  have b1: "update_rotation_body example_lander
      = Inr (Delegate (example_lander\<lparr>state := Stop_init (Some StopOverLandingSpot)\<rparr>))"
    by (simp add: eval_defs)
  from reachable.transition[OF r0 b1]
  have r1: "reachable (Stop_init (Some StopOverLandingSpot))" by simp
  let ?m = "example_lander\<lparr>lander_x := 500, speed_h := 5\<rparr>"
  have r0': "reachable (state ?m)" using r0 by simp
  have b2: "update_rotation_body ?m = Inr (Delegate (?m\<lparr>state := Descend_init None\<rparr>))"
    by (simp add: eval_defs)
  from reachable.transition[OF r0' b2]
  have r2: "reachable (Descend_init None)" by simp
  have k: "cls (Descend_init None) = Descend" by (simp add: Descend_init_def)
  have s: "state (example_lander\<lparr>state := Descend_init None\<rparr>) = Descend_init None" by simp
  from reachable_states[OF r1] have 1: "cls (Stop_init (Some StopOverLandingSpot)) \<noteq> Hover"
    by blast
  from reachable_states[OF r2] k s
  have 2: "\<exists>c. control (example_lander\<lparr>state := Descend_init None\<rparr>)
      = Inr (c, example_lander\<lparr>state := Descend_init None\<rparr>)" by blast
  from r1 r2 k s 1 2 show ?thesis by blast
qed

section \<open>Rounding of the desired values\<close>

lemma py_round_unique:
  assumes "\<bar>of_int n - d\<bar> \<le> 1 / 2" "\<bar>of_int n - d\<bar> = 1 / 2 \<longrightarrow> even n"
  shows "py_round d = n"
proof (rule ccontr)
  let ?m = "py_round d"
  assume ne: "?m \<noteq> n"
  have m: "\<bar>of_int ?m - d\<bar> \<le> 1 / 2" by (rule py_round_near)
  from m assms(1) have "\<bar>(of_int ?m :: real) - of_int n\<bar> \<le> 1" by linarith
  then have "\<bar>?m - n\<bar> \<le> 1" by linarith
  with ne have d1: "\<bar>?m - n\<bar> = 1" by linarith
  then have "\<bar>(of_int ?m :: real) - of_int n\<bar> = 1" by linarith
  with m assms(1) have tm: "\<bar>of_int ?m - d\<bar> = 1 / 2" and tn: "\<bar>of_int n - d\<bar> = 1 / 2"
    by linarith+
  from py_round_half_even[OF tm] assms(2) tn have "even ?m" "even n" by simp_all
  with d1 show False by presburger
qed

text \<open>
  C7, as stated, fails: \<^verbatim>\<open>round\<close> sends 0.5 and -0.5 to 0, where rounding half away from
  zero gives 1 and -1. In a run: \<^verbatim>\<open>StopOverLandingSpot\<close> at speed_h = 21 hands over to
  \<^verbatim>\<open>Stop\<close>, whose desired rotation is 21 * 0.5 = 10.5, and the command is 10, not 11.
\<close>

theorem rounding_half_away_counterexample:
  "py_round (1 / 2) = 0 \<and> round_half_away_from_zero (1 / 2) = 1 \<and>
   py_round (- 1 / 2) = 0 \<and> round_half_away_from_zero (- 1 / 2) = - 1 \<and>
   update_rotation (example_lander\<lparr>speed_h := 21\<rparr>)
     = Inr (Some (21 / 2), example_lander\<lparr>speed_h := 21, state := Stop_init (Some StopOverLandingSpot)\<rparr>) \<and>
   control_rotate (example_lander\<lparr>speed_h := 21\<rparr>)
     = Inr (10, example_lander\<lparr>speed_h := 21, state := Stop_init (Some StopOverLandingSpot)\<rparr>) \<and>
   round_half_away_from_zero (21 / 2) = 11"
  by (simp add: eval_defs round_half_away_from_zero_def)

text \<open>
  C7, amended. The integer produced before limiting is the nearest integer to the desired
  value, an exact half going to the even neighbour: it is within 1/2 of d, it is even
  when it is exactly 1/2 away, and it is the only integer with these two properties.
  Both control outputs are built from it.
\<close>

theorem rounding_half_even:
  "\<bar>of_int (py_round d) - d\<bar> \<le> 1 / 2 \<and>
   (\<bar>of_int (py_round d) - d\<bar> = 1 / 2 \<longrightarrow> even (py_round d)) \<and>
   (\<forall>n. \<bar>of_int n - d\<bar> \<le> 1 / 2 \<and> (\<bar>of_int n - d\<bar> = 1 / 2 \<longrightarrow> even n) \<longrightarrow> py_round d = n) \<and>
   (\<forall>r l'. control_rotate l = Inr (r, l') \<longrightarrow>
      (\<exists>d'. update_rotation l = Inr (Some d', l') \<and> r = limit_rotation (py_round d'))) \<and>
   control_power l = limit_power (py_round (update_power l))"
proof (intro conjI allI impI)
  show "\<bar>of_int (py_round d) - d\<bar> \<le> 1 / 2" by (rule py_round_near)
next
  assume "\<bar>of_int (py_round d) - d\<bar> = 1 / 2"
  then show "even (py_round d)" by (rule py_round_half_even)
next
  fix n
  assume "\<bar>of_int n - d\<bar> \<le> 1 / 2 \<and> (\<bar>of_int n - d\<bar> = 1 / 2 \<longrightarrow> even n)"
  then show "py_round d = n" using py_round_unique[of n d] by blast
next
  fix r l'
  assume "control_rotate l = Inr (r, l')"
  then show "\<exists>d'. update_rotation l = Inr (Some d', l') \<and> r = limit_rotation (py_round d')"
    by (auto simp: control_rotate_def split: sum.splits option.splits prod.splits)
next
  show "control_power l = limit_power (py_round (update_power l))"
    by (simp add: control_power_def)
qed

theorem rounding_half_even_witness:
  "\<bar>of_int (10::int) - (21 / 2 :: real)\<bar> \<le> 1 / 2 \<and> even (10::int) \<and> py_round (21 / 2) = 10"
proof -
  have a: "\<bar>of_int (10::int) - (21 / 2 :: real)\<bar> \<le> 1 / 2" by simp
  have b: "even (10::int)" by simp
  from rounding_half_even[of "21 / 2" example_lander] a b have "py_round (21 / 2) = 10" by blast
  with a b show ?thesis by blast
qed

section \<open>Desired power of StopOverLandingSpot\<close>

text \<open>
  C6, as stated, fails at the boundary: with \<^verbatim>\<open>StopOverLandingSpot\<close> active, altitude 1900
  and speed_v = -18, the desired power is 4, not 3.
\<close>

theorem approach_power_boundary_counterexample:
  "cls (state (example_lander\<lparr>speed_h := 0, speed_v := - 18\<rparr>)) = StopOverLandingSpot \<and>
   \<not> (altitude (example_lander\<lparr>speed_h := 0, speed_v := - 18\<rparr>) < 100 \<and>
      \<not> is_over_landing_spot (example_lander\<lparr>speed_h := 0, speed_v := - 18\<rparr>)) \<and>
   speed_v (example_lander\<lparr>speed_h := 0, speed_v := - 18\<rparr>) = - 18 \<and>
   update_power (example_lander\<lparr>speed_h := 0, speed_v := - 18\<rparr>) = 4 \<and>
   update_power (example_lander\<lparr>speed_h := 0, speed_v := - 18\<rparr>) \<noteq> 3"
  by (simp add: eval_defs)

text \<open>
  C6, amended. With \<^verbatim>\<open>StopOverLandingSpot\<close> active, for every telemetry record where it is
  not the case that altitude < 100 and the lander is off the landing spot, the desired
  power is 3 if speed_v > -18 and 4 otherwise; in particular at exactly speed_v = -18 it
  is 4. The power command is the same number.
\<close>

theorem approach_power:
  assumes "cls (state l) = StopOverLandingSpot"
    and "\<not> (altitude l < 100 \<and> \<not> is_over_landing_spot l)"
  shows "update_power l = (if speed_v l > - 18 then 3 else 4) \<and>
         (speed_v l < - 18 \<longrightarrow> update_power l = 4) \<and>
         (speed_v l = - 18 \<longrightarrow> update_power l = 4) \<and>
         control_power l = (if speed_v l > - 18 then 3 else 4)"
  using assms
  by (auto simp: update_power_def StopOverLandingSpot_update_power_def control_power_def
        limit_power_def MIN_POWER_def MAX_POWER_def py_round_def)

theorem approach_power_witness:
  "cls (state (example_lander\<lparr>speed_v := - 18\<rparr>)) = StopOverLandingSpot \<and>
   \<not> (altitude (example_lander\<lparr>speed_v := - 18\<rparr>) < 100 \<and>
      \<not> is_over_landing_spot (example_lander\<lparr>speed_v := - 18\<rparr>)) \<and>
   speed_v (example_lander\<lparr>speed_v := - 18\<rparr>) = - 18 \<and>
   update_power (example_lander\<lparr>speed_v := - 18\<rparr>) = 4"
proof -
  let ?l = "example_lander\<lparr>speed_v := - 18\<rparr>"
  have a: "cls (state ?l) = StopOverLandingSpot"
    by (simp add: example_lander_def StopOverLandingSpot_init_def)
  have b: "\<not> (altitude ?l < 100 \<and> \<not> is_over_landing_spot ?l)"
    by (simp add: example_lander_def example_spot_def LandingSpot_init_def altitude_def)
  have c: "speed_v ?l = - 18" by simp
  from approach_power[OF a b] c have "update_power ?l = 4" by blast
  with a b c show ?thesis by blast
qed

section \<open>Distance to the landing spot and proportional steering\<close>

text \<open>
  C9, as stated, fails: for a lander over the landing spot (x = 500 between 0 and 1000)
  \<^verbatim>\<open>distance_to_landing_spot\<close> returns \<^verbatim>\<open>None\<close> normally; it raises nothing.
\<close>

theorem distance_over_spot_counterexample:
  "is_over_landing_spot (example_lander\<lparr>lander_x := 500\<rparr>) \<and>
   distance_to_landing_spot (example_lander\<lparr>lander_x := 500\<rparr>) = Inr None"
  by (simp add: eval_defs)

text \<open>
  C9, amended. For every lander over the landing spot \<^verbatim>\<open>distance_to_landing_spot\<close> returns
  \<^verbatim>\<open>None\<close> without raising, and the error (a \<open>TypeError\<close>) only arises when a caller
  multiplies that result by the scale. Off the landing spot it returns a non-zero
  integer: x - left when left of the spot, x - right when right of it (and not left of
  it). It never raises.
\<close>

theorem distance_to_landing_spot_values:
  "(is_over_landing_spot l \<longrightarrow>
      distance_to_landing_spot l = Inr None \<and> scaled_distance l = Inl TypeError) \<and>
   (\<not> is_over_landing_spot l \<longrightarrow> (\<exists>d. d \<noteq> 0 \<and> distance_to_landing_spot l = Inr (Some d))) \<and>
   (is_left_of_landing_spot l \<longrightarrow>
      distance_to_landing_spot l = Inr (Some (lander_x l - left (landing_spot l)))) \<and>
   (\<not> is_left_of_landing_spot l \<and> is_right_of_landing_spot l \<longrightarrow>
      distance_to_landing_spot l = Inr (Some (lander_x l - right (landing_spot l)))) \<and>
   (\<forall>e. distance_to_landing_spot l \<noteq> Inl e)"
  by (auto simp: distance_to_landing_spot_def scaled_distance_def is_over_landing_spot_def
        is_left_of_landing_spot_def is_right_of_landing_spot_def)

theorem distance_to_landing_spot_values_witness:
  "is_over_landing_spot (example_lander\<lparr>lander_x := 500\<rparr>) \<and>
   scaled_distance (example_lander\<lparr>lander_x := 500\<rparr>) = Inl TypeError \<and>
   is_left_of_landing_spot (example_lander\<lparr>lander_x := - 500\<rparr>) \<and>
   distance_to_landing_spot (example_lander\<lparr>lander_x := - 500\<rparr>) = Inr (Some (- 500))"
proof -
  let ?a = "example_lander\<lparr>lander_x := 500\<rparr>"
  let ?b = "example_lander\<lparr>lander_x := - 500\<rparr>"
  have a: "is_over_landing_spot ?a"
    by (simp add: is_over_landing_spot_def example_lander_def example_spot_def LandingSpot_init_def)
  have b: "is_left_of_landing_spot ?b"
    by (simp add: is_left_of_landing_spot_def example_lander_def example_spot_def
          LandingSpot_init_def)
  from distance_to_landing_spot_values[of ?a] a
  have 1: "scaled_distance ?a = Inl TypeError" by blast
  from distance_to_landing_spot_values[of ?b] b
  have "distance_to_landing_spot ?b = Inr (Some (lander_x ?b - left (landing_spot ?b)))" by blast
  then have 2: "distance_to_landing_spot ?b = Inr (Some (- 500))"
    by (simp add: example_lander_def example_spot_def LandingSpot_init_def)
  from a b 1 2 show ?thesis by blast
qed

lemma StopOverLandingSpot_rotation_scaled:
  assumes "cls (state l) = StopOverLandingSpot" "- 20 < speed_h l" "speed_h l < 20"
    "distance_to_landing_spot l = Inr (Some d)"
  shows "update_rotation l = Inr (Some (of_int d * 0.04), l)"
proof (rule update_rotation_Return)
  from assms(4) have "is_left_of_landing_spot l \<or> is_right_of_landing_spot l"
    by (auto simp: distance_to_landing_spot_def split: if_splits)
  moreover from this have "\<not> is_over_landing_spot l"
    by (auto simp: is_over_landing_spot_def is_left_of_landing_spot_def
          is_right_of_landing_spot_def)
  ultimately show "update_rotation_body l = Inr (Return (Some (of_int d * 0.04)))"
    using assms
    by (auto simp: update_rotation_body_def StopOverLandingSpot_update_rotation_def
          is_too_fast_def MAX_SPEED_def move_towards_landing_spot_def scaled_distance_def
          StopOverLandingSpot_scale_def)
qed

text \<open>
  C8, as stated, fails: a lander in \<^verbatim>\<open>StopOverLandingSpot\<close> with speed_h = 0 that is 500
  to the left of the landing spot has distance -500, desired rotation -20 and rotation
  command -20, not 500 and 20.
\<close>

theorem approach_left_500_counterexample:
  "cls (state (example_lander\<lparr>lander_x := - 500, speed_h := 0\<rparr>)) = StopOverLandingSpot \<and>
   is_left_of_landing_spot (example_lander\<lparr>lander_x := - 500, speed_h := 0\<rparr>) \<and>
   speed_h (example_lander\<lparr>lander_x := - 500, speed_h := 0\<rparr>) = 0 \<and>
   left (landing_spot (example_lander\<lparr>lander_x := - 500, speed_h := 0\<rparr>))
     - lander_x (example_lander\<lparr>lander_x := - 500, speed_h := 0\<rparr>) = 500 \<and>
   distance_to_landing_spot (example_lander\<lparr>lander_x := - 500, speed_h := 0\<rparr>)
     = Inr (Some (- 500)) \<and>
   update_rotation (example_lander\<lparr>lander_x := - 500, speed_h := 0\<rparr>)
     = Inr (Some (- 20), example_lander\<lparr>lander_x := - 500, speed_h := 0\<rparr>) \<and>
   control_rotate (example_lander\<lparr>lander_x := - 500, speed_h := 0\<rparr>)
     = Inr (- 20, example_lander\<lparr>lander_x := - 500, speed_h := 0\<rparr>)"
  by (simp add: eval_defs)

text \<open>
  C8, amended. With \<^verbatim>\<open>StopOverLandingSpot\<close> active and speed_h = 0: left of the landing
  spot the distance is negative and the desired rotation is distance * 0.04; at
  x = left - 500 the distance is -500 and the desired rotation and the rotation command
  are -20; at x = right + 500 (right of a spot with left \<le> right) the distance is 500 and
  the desired rotation and the rotation command are 20. The state stays active.
\<close>

theorem approach_proportional_rotation:
  assumes "cls (state l) = StopOverLandingSpot" "speed_h l = 0"
  shows "(is_left_of_landing_spot l \<longrightarrow>
            (\<exists>d. d < 0 \<and> distance_to_landing_spot l = Inr (Some d) \<and>
                 update_rotation l = Inr (Some (of_int d * 0.04), l))) \<and>
         (lander_x l = left (landing_spot l) - 500 \<longrightarrow>
            is_left_of_landing_spot l \<and> distance_to_landing_spot l = Inr (Some (- 500)) \<and>
            update_rotation l = Inr (Some (- 20), l) \<and> control_rotate l = Inr (- 20, l)) \<and>
         (lander_x l = right (landing_spot l) + 500 \<and> left (landing_spot l) \<le> right (landing_spot l) \<longrightarrow>
            is_right_of_landing_spot l \<and> distance_to_landing_spot l = Inr (Some 500) \<and>
            update_rotation l = Inr (Some 20, l) \<and> control_rotate l = Inr (20, l))"
proof (intro conjI impI)
  assume lf: "is_left_of_landing_spot l"
  let ?d = "lander_x l - left (landing_spot l)"
  have d: "distance_to_landing_spot l = Inr (Some ?d)"
    using lf by (simp add: distance_to_landing_spot_def)
  have "?d < 0" using lf by (simp add: is_left_of_landing_spot_def)
  moreover have "update_rotation l = Inr (Some (of_int ?d * 0.04), l)"
    by (rule StopOverLandingSpot_rotation_scaled[OF assms(1) _ _ d]) (simp_all add: assms(2))
  ultimately show "\<exists>d. d < 0 \<and> distance_to_landing_spot l = Inr (Some d) \<and>
                 update_rotation l = Inr (Some (of_int d * 0.04), l)"
    using d by blast
next
  assume x: "lander_x l = left (landing_spot l) - 500"
  then show lf: "is_left_of_landing_spot l" by (simp add: is_left_of_landing_spot_def)
  then show d: "distance_to_landing_spot l = Inr (Some (- 500))"
    using x by (simp add: distance_to_landing_spot_def)
  have "update_rotation l = Inr (Some (of_int (- 500) * 0.04), l)"
    by (rule StopOverLandingSpot_rotation_scaled[OF assms(1) _ _ d]) (simp_all add: assms(2))
  then show u: "update_rotation l = Inr (Some (- 20), l)" by simp
  then show "control_rotate l = Inr (- 20, l)"
    by (simp add: control_rotate_def limit_rotation_def rotate_limit_def MAX_ROTATION_def
          py_round_def)
next
  assume x: "lander_x l = right (landing_spot l) + 500 \<and> left (landing_spot l) \<le> right (landing_spot l)"
  then show rt: "is_right_of_landing_spot l" by (simp add: is_right_of_landing_spot_def)
  from x have nl: "\<not> is_left_of_landing_spot l" by (simp add: is_left_of_landing_spot_def)
  show d: "distance_to_landing_spot l = Inr (Some 500)"
    using x rt nl by (simp add: distance_to_landing_spot_def)
  have "update_rotation l = Inr (Some (of_int 500 * 0.04), l)"
    by (rule StopOverLandingSpot_rotation_scaled[OF assms(1) _ _ d]) (simp_all add: assms(2))
  then show u: "update_rotation l = Inr (Some 20, l)" by simp
  then show "control_rotate l = Inr (20, l)"
    by (simp add: control_rotate_def limit_rotation_def rotate_limit_def MAX_ROTATION_def
          py_round_def)
qed

theorem approach_proportional_rotation_witness:
  "cls (state (example_lander\<lparr>speed_h := 0\<rparr>)) = StopOverLandingSpot \<and>
   speed_h (example_lander\<lparr>speed_h := 0\<rparr>) = 0 \<and>
   lander_x (example_lander\<lparr>speed_h := 0\<rparr>)
     = right (landing_spot (example_lander\<lparr>speed_h := 0\<rparr>)) + 500 \<and>
   left (landing_spot (example_lander\<lparr>speed_h := 0\<rparr>))
     \<le> right (landing_spot (example_lander\<lparr>speed_h := 0\<rparr>)) \<and>
   distance_to_landing_spot (example_lander\<lparr>speed_h := 0\<rparr>) = Inr (Some 500) \<and>
   update_rotation (example_lander\<lparr>speed_h := 0\<rparr>)
     = Inr (Some 20, example_lander\<lparr>speed_h := 0\<rparr>) \<and>
   control_rotate (example_lander\<lparr>speed_h := 0\<rparr>) = Inr (20, example_lander\<lparr>speed_h := 0\<rparr>)"
proof -
  let ?l = "example_lander\<lparr>speed_h := 0\<rparr>"
  have a: "cls (state ?l) = StopOverLandingSpot"
    by (simp add: example_lander_def StopOverLandingSpot_init_def)
  have b: "speed_h ?l = 0" by simp
  have c: "lander_x ?l = right (landing_spot ?l) + 500 \<and>
      left (landing_spot ?l) \<le> right (landing_spot ?l)"
    by (simp add: example_lander_def example_spot_def LandingSpot_init_def)
  from approach_proportional_rotation[OF a b] c
  have "distance_to_landing_spot ?l = Inr (Some 500) \<and>
        update_rotation ?l = Inr (Some 20, ?l) \<and> control_rotate ?l = Inr (20, ?l)" by blast
  with a b c show ?thesis by blast
qed

section \<open>The float products read as real numbers\<close>

text \<open>
  The two products of the control laws are modelled in the reals. \<^verbatim>\<open>speed_h * 0.5\<close> is
  exact in binary floating point. \<^verbatim>\<open>distance * 0.04\<close> is not, but for an integer
  distance the real product is a multiple of 1/25 and so stays at least 1/50 away from
  every half-integer: a float error far below that bound cannot change what
  \<^verbatim>\<open>round\<close> returns.
\<close>

lemma scaled_distance_not_half:
  "\<bar>of_int d * StopOverLandingSpot_scale - (of_int n + 1 / 2)\<bar> \<ge> 1 / 50"
proof -
  let ?k = "2 * d - 50 * n - 25"
  have eq: "of_int d * StopOverLandingSpot_scale - (of_int n + 1 / 2) = of_int ?k / (50::real)"
    by (simp add: StopOverLandingSpot_scale_def field_simps)
  have "?k \<noteq> 0" by presburger
  then have "\<bar>?k\<bar> \<ge> 1" by linarith
  then have "\<bar>(of_int ?k :: real)\<bar> \<ge> 1"
    by (metis of_int_abs of_int_1_le_iff)
  then show ?thesis unfolding eq by simp
qed

end
